theory Spec2Isabelle
  imports Main "HOL-Library.Char_ord" "HOL-Library.List_Lexorder"
begin

section \<open>JavaScript values as the client sees them\<close>

text \<open>
  A response body is what axios hands over as \<^verbatim>\<open>response.data\<close>: a parsed JSON value.
  \<open>JUndefined\<close> is the value of a missing property (and of \<^verbatim>\<open>x?.k\<close> on null or
  undefined). Scope of the model: strings are lists of ASCII code units; a number is an
  integer-valued JSON number in the safe-integer range; an object is the association
  list of its own keys (a parsed object has each key once; the first binding is read).
\<close>

datatype json =
    JUndefined
  | JNull
  | JBool bool
  | JNum int
  | JStr string
  | JArr "json list"
  | JObj "(string \<times> json) list"

text \<open>JavaScript truthiness: undefined, null, false, 0 and the empty string are falsy;
  every array and every object is truthy, the empty ones too.\<close>

fun truthy :: "json \<Rightarrow> bool" where
  "truthy JUndefined = False"
| "truthy JNull = False"
| "truthy (JBool b) = b"
| "truthy (JNum n) = (n \<noteq> 0)"
| "truthy (JStr s) = (s \<noteq> [])"
| "truthy (JArr xs) = True"
| "truthy (JObj kvs) = True"

text \<open>\<^verbatim>\<open>v?.k\<close> for the property names the client reads (\<^verbatim>\<open>locations\<close>, \<^verbatim>\<open>data\<close>,
  \<^verbatim>\<open>anomalies\<close>, \<^verbatim>\<open>states\<close>, \<^verbatim>\<open>districts\<close>): an object yields the value stored
  under the key, everything else (null, undefined, primitives, arrays) yields undefined.\<close>

fun get_field :: "json \<Rightarrow> string \<Rightarrow> json" where
  "get_field (JObj kvs) k = (case map_of kvs k of Some v \<Rightarrow> v | None \<Rightarrow> JUndefined)"
| "get_field v k = JUndefined"

text \<open>The operator \<^verbatim>\<open>a || b\<close>.\<close>

definition js_or :: "json \<Rightarrow> json \<Rightarrow> json" where
  "js_or a b = (if truthy a then a else b)"


section \<open>The API client (api.ts)\<close>

datatype http_verb = GET | POST

record request =
  verb :: http_verb
  path :: string
  params :: "(string \<times> string) list"

text \<open>A rejected promise is an error value. The client functions have no handler of
  their own, so a transport failure is what the caller gets.\<close>

datatype error = RequestFailed | TypeError

type_synonym transport = "request \<Rightarrow> error + json"

text \<open>\<^verbatim>\<open>api.get(url, { params })\<close> hands the request to the transport \<open>net\<close> and
  resolves to the body or rejects.\<close>

text \<open>A field of type \<^verbatim>\<open>string | null | undefined\<close>, and the \<^verbatim>\<open>LocationFilter\<close>
  interface built from two of them. The parameter \<^verbatim>\<open>filter?: LocationFilter\<close> is a
  \<open>LocationFilter option\<close>; \<^verbatim>\<open>filter?.state\<close> is undefined when the filter is.\<close>

datatype jstr = Undefined | Null | Str string

record LocationFilter =
  state :: jstr
  district :: jstr

definition opt_field :: "(LocationFilter \<Rightarrow> jstr) \<Rightarrow> LocationFilter option \<Rightarrow> jstr" where
  "opt_field sel f = (case f of None \<Rightarrow> Undefined | Some x \<Rightarrow> sel x)"

text \<open>\<^verbatim>\<open>...(v && { key: v })\<close> inside an object literal: a falsy \<open>v\<close> (undefined, null,
  the empty string) spreads to nothing, a non-empty string adds the key.\<close>

fun spread_if :: "string \<Rightarrow> jstr \<Rightarrow> (string \<times> string) list" where
  "spread_if key (Str s) = (if s \<noteq> [] then [(key, s)] else [])"
| "spread_if key v = []"

text \<open>The functions take \<^verbatim>\<open>formatDate\<close> (date-fns \<^verbatim>\<open>format(date, 'yyyy-MM-dd')\<close>) as a
  parameter \<open>fmt\<close>. Each function is given by the request it issues (\<open>_request\<close>) and
  by what it makes of the response. The summaries return \<^verbatim>\<open>response.data\<close> as it is.\<close>

definition fetchEnrollmentSummary_request :: "('d \<Rightarrow> string) \<Rightarrow> 'd \<Rightarrow> LocationFilter option \<Rightarrow> request" where
  "fetchEnrollmentSummary_request fmt simulationDate f =
     \<lparr>verb = GET, path = ''/api/enrollment/summary'',
      params = (''simulation_date'', fmt simulationDate)
        # spread_if ''state'' (opt_field state f) @ spread_if ''district'' (opt_field district f)\<rparr>"

definition fetchEnrollmentSummary ::
  "transport \<Rightarrow> ('d \<Rightarrow> string) \<Rightarrow> 'd \<Rightarrow> LocationFilter option \<Rightarrow> error + json" where
  "fetchEnrollmentSummary net fmt simulationDate f = net (fetchEnrollmentSummary_request fmt simulationDate f)"

definition fetchDemographicSummary_request :: "('d \<Rightarrow> string) \<Rightarrow> 'd \<Rightarrow> LocationFilter option \<Rightarrow> request" where
  "fetchDemographicSummary_request fmt simulationDate f =
     \<lparr>verb = GET, path = ''/api/demographic/summary'',
      params = (''simulation_date'', fmt simulationDate)
        # spread_if ''state'' (opt_field state f) @ spread_if ''district'' (opt_field district f)\<rparr>"

definition fetchDemographicSummary ::
  "transport \<Rightarrow> ('d \<Rightarrow> string) \<Rightarrow> 'd \<Rightarrow> LocationFilter option \<Rightarrow> error + json" where
  "fetchDemographicSummary net fmt simulationDate f = net (fetchDemographicSummary_request fmt simulationDate f)"

definition fetchBiometricSummary_request :: "('d \<Rightarrow> string) \<Rightarrow> 'd \<Rightarrow> LocationFilter option \<Rightarrow> request" where
  "fetchBiometricSummary_request fmt simulationDate f =
     \<lparr>verb = GET, path = ''/api/biometric/summary'',
      params = (''simulation_date'', fmt simulationDate)
        # spread_if ''state'' (opt_field state f) @ spread_if ''district'' (opt_field district f)\<rparr>"

definition fetchBiometricSummary ::
  "transport \<Rightarrow> ('d \<Rightarrow> string) \<Rightarrow> 'd \<Rightarrow> LocationFilter option \<Rightarrow> error + json" where
  "fetchBiometricSummary net fmt simulationDate f = net (fetchBiometricSummary_request fmt simulationDate f)"

text \<open>The list-shaped endpoints unwrap an envelope:
  \<^verbatim>\<open>return response.data?.<key> || response.data || [];\<close> (\<^verbatim>\<open>||\<close> associates to the left).\<close>

definition unwrap :: "string \<Rightarrow> json \<Rightarrow> json" where
  "unwrap key body = js_or (js_or (get_field body key) body) (JArr [])"

definition unwrapped :: "string \<Rightarrow> error + json \<Rightarrow> error + json" where
  "unwrapped key resp = (case resp of Inl e \<Rightarrow> Inl e | Inr body \<Rightarrow> Inr (unwrap key body))"

definition fetchEnrollmentTrends_request :: "('d \<Rightarrow> string) \<Rightarrow> 'd \<Rightarrow> LocationFilter option \<Rightarrow> request" where
  "fetchEnrollmentTrends_request fmt simulationDate f =
     \<lparr>verb = GET, path = ''/api/enrollment/trends'',
      params = (''simulation_date'', fmt simulationDate)
        # spread_if ''state'' (opt_field state f) @ spread_if ''district'' (opt_field district f)\<rparr>"

definition fetchEnrollmentTrends ::
  "transport \<Rightarrow> ('d \<Rightarrow> string) \<Rightarrow> 'd \<Rightarrow> LocationFilter option \<Rightarrow> error + json" where
  "fetchEnrollmentTrends net fmt simulationDate f =
     unwrapped ''data'' (net (fetchEnrollmentTrends_request fmt simulationDate f))"

definition fetchDemographicTrends_request :: "('d \<Rightarrow> string) \<Rightarrow> 'd \<Rightarrow> LocationFilter option \<Rightarrow> request" where
  "fetchDemographicTrends_request fmt simulationDate f =
     \<lparr>verb = GET, path = ''/api/demographic/trends'',
      params = (''simulation_date'', fmt simulationDate)
        # spread_if ''state'' (opt_field state f) @ spread_if ''district'' (opt_field district f)\<rparr>"

definition fetchDemographicTrends ::
  "transport \<Rightarrow> ('d \<Rightarrow> string) \<Rightarrow> 'd \<Rightarrow> LocationFilter option \<Rightarrow> error + json" where
  "fetchDemographicTrends net fmt simulationDate f =
     unwrapped ''data'' (net (fetchDemographicTrends_request fmt simulationDate f))"

definition fetchBiometricTrends_request :: "('d \<Rightarrow> string) \<Rightarrow> 'd \<Rightarrow> LocationFilter option \<Rightarrow> request" where
  "fetchBiometricTrends_request fmt simulationDate f =
     \<lparr>verb = GET, path = ''/api/biometric/trends'',
      params = (''simulation_date'', fmt simulationDate)
        # spread_if ''state'' (opt_field state f) @ spread_if ''district'' (opt_field district f)\<rparr>"

definition fetchBiometricTrends ::
  "transport \<Rightarrow> ('d \<Rightarrow> string) \<Rightarrow> 'd \<Rightarrow> LocationFilter option \<Rightarrow> error + json" where
  "fetchBiometricTrends net fmt simulationDate f =
     unwrapped ''data'' (net (fetchBiometricTrends_request fmt simulationDate f))"

text \<open>Anomalies: the object literal spreads \<^verbatim>\<open>filter?.state\<close> only.\<close>

definition fetchAnomalies_request :: "('d \<Rightarrow> string) \<Rightarrow> 'd \<Rightarrow> LocationFilter option \<Rightarrow> request" where
  "fetchAnomalies_request fmt simulationDate f =
     \<lparr>verb = GET, path = ''/api/anomaly/detect'',
      params = (''simulation_date'', fmt simulationDate) # spread_if ''state'' (opt_field state f)\<rparr>"

definition fetchAnomalies ::
  "transport \<Rightarrow> ('d \<Rightarrow> string) \<Rightarrow> 'd \<Rightarrow> LocationFilter option \<Rightarrow> error + json" where
  "fetchAnomalies net fmt simulationDate f =
     unwrapped ''anomalies'' (net (fetchAnomalies_request fmt simulationDate f))"

text \<open>Heatmap: \<^verbatim>\<open>type\<close> is one of three literals and defaults to \<^verbatim>\<open>'enrollment'\<close> when
  the argument is left out (\<open>None\<close>); the path is the template
  \<^verbatim>\<open>`/api/geospatial/heatmap/${type}`\<close>.\<close>

datatype heatmap_type = Enrollment | Demographic | Biometric

fun heatmap_type_name :: "heatmap_type \<Rightarrow> string" where
  "heatmap_type_name Enrollment = ''enrollment''"
| "heatmap_type_name Demographic = ''demographic''"
| "heatmap_type_name Biometric = ''biometric''"

definition fetchHeatmapData_request :: "('d \<Rightarrow> string) \<Rightarrow> 'd \<Rightarrow> heatmap_type option \<Rightarrow> request" where
  "fetchHeatmapData_request fmt simulationDate ty =
     \<lparr>verb = GET,
      path = ''/api/geospatial/heatmap/''
        @ heatmap_type_name (case ty of None \<Rightarrow> Enrollment | Some t \<Rightarrow> t),
      params = [(''simulation_date'', fmt simulationDate)]\<rparr>"

definition fetchHeatmapData ::
  "transport \<Rightarrow> ('d \<Rightarrow> string) \<Rightarrow> 'd \<Rightarrow> heatmap_type option \<Rightarrow> error + json" where
  "fetchHeatmapData net fmt simulationDate ty =
     unwrapped ''locations'' (net (fetchHeatmapData_request fmt simulationDate ty))"

text \<open>Capacity planning takes the filter as separate optional strings; every parameter
  is spread under the same guard.\<close>

definition fetchCapacityPlanning_request :: "jstr \<Rightarrow> jstr \<Rightarrow> jstr \<Rightarrow> jstr \<Rightarrow> request" where
  "fetchCapacityPlanning_request st di period level =
     \<lparr>verb = GET, path = ''/api/ml-v2/capacity'',
      params = spread_if ''state'' st @ spread_if ''district'' di
        @ spread_if ''period'' period @ spread_if ''level'' level\<rparr>"

definition fetchCapacityPlanning :: "transport \<Rightarrow> jstr \<Rightarrow> jstr \<Rightarrow> jstr \<Rightarrow> jstr \<Rightarrow> error + json" where
  "fetchCapacityPlanning net st di period level = net (fetchCapacityPlanning_request st di period level)"


text \<open>A transport for the examples: it answers with the request it was handed.\<close>

definition echo :: transport where
  "echo q =
     Inr (JObj [(''verb'', JStr (case verb q of GET \<Rightarrow> ''GET'' | POST \<Rightarrow> ''POST'')),
                (''path'', JStr (path q)),
                (''params'', JObj (map (\<lambda>(k, v). (k, JStr v)) (params q)))])"


section \<open>Strings\<close>

text \<open>The string operations the provider uses, on ASCII code units. JavaScript's
  white space (\<^verbatim>\<open>\s\<close>, \<^verbatim>\<open>trim\<close>) is tab, line feed, vertical tab, form feed, carriage
  return and space; \<^verbatim>\<open>\d\<close> is a decimal digit.\<close>

definition is_space :: "char \<Rightarrow> bool" where
  "is_space c = (of_char c \<in> {9, 10, 11, 12, 13, 32 :: nat})"

definition is_digit :: "char \<Rightarrow> bool" where
  "is_digit c = (48 \<le> (of_char c :: nat) \<and> (of_char c :: nat) \<le> 57)"

definition toLowerCase_char :: "char \<Rightarrow> char" where
  "toLowerCase_char c =
     (if 65 \<le> (of_char c :: nat) \<and> (of_char c :: nat) \<le> 90 then char_of (of_char c + 32 :: nat) else c)"

definition toUpperCase_char :: "char \<Rightarrow> char" where
  "toUpperCase_char c =
     (if 97 \<le> (of_char c :: nat) \<and> (of_char c :: nat) \<le> 122 then char_of (of_char c - 32 :: nat) else c)"

definition toLowerCase :: "string \<Rightarrow> string" where
  "toLowerCase s = map toLowerCase_char s"

definition trim :: "string \<Rightarrow> string" where
  "trim s = rev (dropWhile is_space (rev (dropWhile is_space s)))"

text \<open>\<^verbatim>\<open>s.replace(/\s+/g, ' ')\<close>: every maximal run of white space becomes one space.
  The flag says that the previous character was white space.\<close>

fun collapse_from :: "bool \<Rightarrow> string \<Rightarrow> string" where
  "collapse_from in_run [] = []"
| "collapse_from in_run (c # cs) =
     (if is_space c then (if in_run then collapse_from True cs else CHR '' '' # collapse_from True cs)
      else c # collapse_from False cs)"

definition collapse_spaces :: "string \<Rightarrow> string" where
  "collapse_spaces s = collapse_from False s"

text \<open>\<^verbatim>\<open>s.split(' ')\<close>: the pieces between single spaces; the empty string splits into
  one empty piece.\<close>

fun split_space :: "string \<Rightarrow> string list" where
  "split_space [] = [[]]"
| "split_space (c # cs) =
     (if c = CHR '' '' then [] # split_space cs
      else (case split_space cs of w # ws \<Rightarrow> (c # w) # ws | [] \<Rightarrow> [[c]]))"

text \<open>\<^verbatim>\<open>parts.join(sep)\<close>.\<close>

fun join :: "string \<Rightarrow> string list \<Rightarrow> string" where
  "join sep [] = []"
| "join sep [w] = w"
| "join sep (w # ws) = w @ sep @ join sep ws"

text \<open>\<^verbatim>\<open>word.charAt(0).toUpperCase() + word.slice(1).toLowerCase()\<close>.\<close>

fun capitalize :: "string \<Rightarrow> string" where
  "capitalize [] = []"
| "capitalize (c # cs) = toUpperCase_char c # toLowerCase cs"

text \<open>\<^verbatim>\<open>/^\d+$/.test(s)\<close>.\<close>

definition all_digits :: "string \<Rightarrow> bool" where
  "all_digits s = (s \<noteq> [] \<and> list_all is_digit s)"

text \<open>String conversion, used where JavaScript converts by itself: by
  \<^verbatim>\<open>RegExp.prototype.test\<close> on its argument and by the default \<^verbatim>\<open>sort()\<close> on the
  elements. Inside an array null and undefined print as the empty string.\<close>

fun show_nat :: "nat \<Rightarrow> string" where
  "show_nat n = (if n < 10 then [char_of (48 + n)] else show_nat (n div 10) @ [char_of (48 + n mod 10)])"

declare show_nat.simps [simp del]

definition show_int :: "int \<Rightarrow> string" where
  "show_int i = (if i < 0 then CHR ''-'' # show_nat (nat (- i)) else show_nat (nat i))"

fun js_to_string :: "json \<Rightarrow> string" where
  "js_to_string JUndefined = ''undefined''"
| "js_to_string JNull = ''null''"
| "js_to_string (JBool b) = (if b then ''true'' else ''false'')"
| "js_to_string (JNum n) = show_int n"
| "js_to_string (JStr s) = s"
| "js_to_string (JArr xs) =
     join '','' (map (\<lambda>x. if x = JNull \<or> x = JUndefined then [] else js_to_string x) xs)"
| "js_to_string (JObj kvs) = ''[object Object]''"

text \<open>\<^verbatim>\<open>xs.sort()\<close> without a comparator: undefined elements go last, the others are
  ordered by the code units of their string conversions; the sort is stable.\<close>

definition js_sort :: "json list \<Rightarrow> json list" where
  "js_sort xs = sort_key js_to_string (filter (\<lambda>x. x \<noteq> JUndefined) xs) @ filter (\<lambda>x. x = JUndefined) xs"

text \<open>\<^verbatim>\<open>[...new Set(xs)]\<close>: the elements in the order of their first occurrence.\<close>

definition set_add :: "'a list \<Rightarrow> 'a \<Rightarrow> 'a list" where
  "set_add acc x = (if x \<in> set acc then acc else acc @ [x])"

definition new_Set :: "'a list \<Rightarrow> 'a list" where
  "new_Set xs = foldl set_add [] xs"


section \<open>The location context (LocationProvider)\<close>

subsection \<open>Normalising the state list\<close>

text \<open>The table \<^verbatim>\<open>stateNormalization\<close>: the own keys of the object literal.\<close>

definition stateNormalization :: "(string \<times> string) list" where
  "stateNormalization =
    [(''andhra pradesh'', ''Andhra Pradesh''),
     (''andaman & nicobar islands'', ''Andaman and Nicobar Islands''),
     (''dadra & nagar haveli'', ''Dadra and Nagar Haveli and Daman and Diu''),
     (''dadra and nagar haveli'', ''Dadra and Nagar Haveli and Daman and Diu''),
     (''dadra and nagar haveli and daman and diu'', ''Dadra and Nagar Haveli and Daman and Diu''),
     (''daman & diu'', ''Dadra and Nagar Haveli and Daman and Diu''),
     (''daman and diu'', ''Dadra and Nagar Haveli and Daman and Diu''),
     (''jammu & kashmir'', ''Jammu and Kashmir''),
     (''odisha'', ''Odisha''),
     (''orissa'', ''Odisha''),
     (''pondicherry'', ''Puducherry''),
     (''west bengal'', ''West Bengal''),
     (''west  bengal'', ''West Bengal''),
     (''west bangal'', ''West Bengal''),
     (''westbengal'', ''West Bengal'')]"

text \<open>What an element of \<^verbatim>\<open>states\<close> can be. The table is a plain object literal, so
  \<^verbatim>\<open>stateNormalization[key]\<close> also finds what every object inherits from
  \<^verbatim>\<open>Object.prototype\<close>. The key is lower-cased, and of the inherited names only
  \<^verbatim>\<open>constructor\<close> and \<^verbatim>\<open>__proto__\<close> are written in lower case: the first yields the
  function \<^verbatim>\<open>Object\<close>, the second the object \<^verbatim>\<open>Object.prototype\<close>. Both are truthy and
  neither is a string.\<close>

datatype state_entry = Name string | Object_constructor | Object_prototype

text \<open>\<^verbatim>\<open>stateNormalization[key]\<close>; \<open>None\<close> is undefined.\<close>

definition stateNormalization_at :: "string \<Rightarrow> state_entry option" where
  "stateNormalization_at key =
     (case map_of stateNormalization key of
        Some v \<Rightarrow> Some (Name v)
      | None \<Rightarrow>
          if key = ''constructor'' then Some Object_constructor
          else if key = ''__proto__'' then Some Object_prototype
          else None)"

fun truthy_entry :: "state_entry \<Rightarrow> bool" where
  "truthy_entry (Name v) = (v \<noteq> [])"
| "truthy_entry Object_constructor = True"
| "truthy_entry Object_prototype = True"

text \<open>The string conversion the default \<^verbatim>\<open>sort()\<close> compares by (the function prints as
  V8 prints it).\<close>

fun entry_to_string :: "state_entry \<Rightarrow> string" where
  "entry_to_string (Name v) = v"
| "entry_to_string Object_constructor = ''function Object() { [native code] }''"
| "entry_to_string Object_prototype = ''[object Object]''"

text \<open>The filter \<^verbatim>\<open>(s) => s && !/^\d+$/.test(s)\<close>.\<close>

definition keep_entry :: "json \<Rightarrow> bool" where
  "keep_entry s = (truthy s \<and> \<not> all_digits (js_to_string s))"

text \<open>The callback of \<^verbatim>\<open>.map\<close>: the key is the trimmed, lower-cased name with its
  white space collapsed; \<^verbatim>\<open>stateNormalization[normalized] || <title case>\<close>.\<close>

definition titleCase :: "string \<Rightarrow> string" where
  "titleCase s = join '' '' (map capitalize (split_space (trim s)))"

definition normalizeState :: "string \<Rightarrow> state_entry" where
  "normalizeState s =
     (let normalized = collapse_spaces (toLowerCase (trim s))
      in case stateNormalization_at normalized of
           Some v \<Rightarrow> if truthy_entry v then v else Name (titleCase s)
         | None \<Rightarrow> Name (titleCase s))"

text \<open>\<^verbatim>\<open>.map\<close> over the kept entries: an entry that is not a string has no \<^verbatim>\<open>trim\<close>
  method, and the call throws a TypeError.\<close>

fun normalize_all :: "json list \<Rightarrow> error + state_entry list" where
  "normalize_all [] = Inr []"
| "normalize_all (JStr s # xs) =
     (case normalize_all xs of Inl e \<Rightarrow> Inl e | Inr ys \<Rightarrow> Inr (normalizeState s # ys))"
| "normalize_all (x # xs) = Inl TypeError"

text \<open>From the body to the argument of \<^verbatim>\<open>setStates\<close>:
  \<^verbatim>\<open>response.data?.states || []\<close>, filter, map, \<^verbatim>\<open>[...new Set(...)].sort()\<close>. A truthy
  \<^verbatim>\<open>states\<close> that is not an array has no \<^verbatim>\<open>filter\<close> method. The sort is the default
  one: stable, by the code units of the string conversions.\<close>

definition uniqueStates :: "json \<Rightarrow> error + state_entry list" where
  "uniqueStates body =
     (case js_or (get_field body ''states'') (JArr []) of
        JArr stateList \<Rightarrow>
          (case normalize_all (filter keep_entry stateList) of
             Inl e \<Rightarrow> Inl e
           | Inr normalizedStates \<Rightarrow> Inr (sort_key entry_to_string (new_Set normalizedStates)))
      | other \<Rightarrow> Inl TypeError)"


subsection \<open>The provider's state\<close>

text \<open>The six \<^verbatim>\<open>useState\<close> cells of \<^verbatim>\<open>LocationProvider\<close> (\<^verbatim>\<open>string | null\<close> is a
  \<open>string option\<close>), and beside them what React and the network hold for the provider:
  whether the effect with the dependency list \<^verbatim>\<open>[selectedState]\<close> is due
  (\<open>effectPending\<close>: a render with a new \<^verbatim>\<open>selectedState\<close> has been committed and the
  effect has not run yet), every request sent so far (\<open>issued\<close>) and the requests whose
  promise has not settled yet (\<open>inflight\<close>). \<^verbatim>\<open>districts\<close> holds the elements of the
  response as they came: nothing checks that they are strings.\<close>

record LocationState =
  selectedState :: "string option"
  selectedDistrict :: "string option"
  states :: "state_entry list"
  districts :: "json list"
  isLoadingStates :: bool
  isLoadingDistricts :: bool

record provider = LocationState +
  effectPending :: bool
  issued :: "request list"
  inflight :: "request list"

definition initial :: provider where
  "initial =
     \<lparr>selectedState = None, selectedDistrict = None, states = [], districts = [],
      isLoadingStates = True, isLoadingDistricts = False,
      effectPending = False, issued = [], inflight = []\<rparr>"

definition send :: "request \<Rightarrow> provider \<Rightarrow> provider" where
  "send q st = st\<lparr>issued := issued st @ [q], inflight := inflight st @ [q]\<rparr>"

definition states_request :: request where
  "states_request = \<lparr>verb = GET, path = ''/api/enrollment/states'', params = []\<rparr>"

definition districts_request :: "string \<Rightarrow> request" where
  "districts_request s = \<lparr>verb = GET, path = ''/api/enrollment/districts'', params = [(''state'', s)]\<rparr>"

text \<open>The effect with the dependency list \<^verbatim>\<open>[selectedState]\<close>, up to the \<^verbatim>\<open>await\<close>:
  \<^verbatim>\<open>fetchDistricts()\<close> clears the list and returns when \<^verbatim>\<open>!selectedState\<close> (null or the
  empty string), else raises the loading flag and sends the request; then
  \<^verbatim>\<open>setSelectedDistrict(null)\<close>. It reads the \<^verbatim>\<open>selectedState\<close> of the render it
  belongs to.\<close>

definition selectedState_effect :: "provider \<Rightarrow> provider" where
  "selectedState_effect st =
     (case selectedState st of
        None \<Rightarrow> st\<lparr>districts := []\<rparr>
      | Some s \<Rightarrow>
          if s = [] then st\<lparr>districts := []\<rparr>
          else send (districts_request s) (st\<lparr>isLoadingDistricts := True\<rparr>))
     \<lparr>selectedDistrict := None, effectPending := False\<rparr>"

text \<open>Mounting: the first effect calls \<^verbatim>\<open>fetchStates()\<close>, which sends its request; the
  second effect runs with \<^verbatim>\<open>selectedState = null\<close>. \<open>mounted\<close> is the provider once
  both have run.\<close>

definition mounted :: provider where
  "mounted = selectedState_effect (send states_request initial)"

text \<open>The two setters are the \<^verbatim>\<open>useState\<close> setters themselves. React leaves the
  component alone when the new value is the value held (\<^verbatim>\<open>Object.is\<close>). Otherwise it
  renders and commits the new \<^verbatim>\<open>selectedState\<close> beside the \<^verbatim>\<open>selectedDistrict\<close> held so
  far (\<open>setSelectedState_render\<close>: this is what the pages read until the effect has
  run), and the effect, whose dependency changed, runs after the commit.
  \<open>setSelectedState\<close> is the call together with its effect.\<close>

definition setSelectedState_render :: "string option \<Rightarrow> provider \<Rightarrow> provider" where
  "setSelectedState_render v st =
     (if v = selectedState st then st else st\<lparr>selectedState := v, effectPending := True\<rparr>)"

definition setSelectedState :: "string option \<Rightarrow> provider \<Rightarrow> provider" where
  "setSelectedState v st =
     (if v = selectedState st then st else selectedState_effect (setSelectedState_render v st))"

definition setSelectedDistrict :: "string option \<Rightarrow> provider \<Rightarrow> provider" where
  "setSelectedDistrict d st = st\<lparr>selectedDistrict := d\<rparr>"

text \<open>\<^verbatim>\<open>fetchStates\<close> after its \<^verbatim>\<open>await\<close>: the \<^verbatim>\<open>try\<close> block, then
  \<^verbatim>\<open>catch\<close> (which only logs) and \<^verbatim>\<open>finally\<close>. The result is how the promise of the
  async function settles: \<open>Inr\<close> when it fulfils.\<close>

definition fetchStates_try :: "error + json \<Rightarrow> provider \<Rightarrow> error + provider" where
  "fetchStates_try response st =
     (case response of
        Inl e \<Rightarrow> Inl e
      | Inr body \<Rightarrow>
          (case uniqueStates body of
             Inl e \<Rightarrow> Inl e
           | Inr names \<Rightarrow> Inr (st\<lparr>states := names\<rparr>)))"

definition fetchStates_settled :: "error + json \<Rightarrow> provider \<Rightarrow> error + provider" where
  "fetchStates_settled response st =
     (let after = (case fetchStates_try response st of Inr st' \<Rightarrow> st' | Inl e \<Rightarrow> st)
      in Inr (after\<lparr>isLoadingStates := False\<rparr>))"

text \<open>\<^verbatim>\<open>fetchDistricts\<close> after its \<^verbatim>\<open>await\<close>:
  \<^verbatim>\<open>setDistricts((response.data?.districts || []).sort())\<close>; the \<^verbatim>\<open>catch\<close> block logs and
  clears the list. A truthy \<^verbatim>\<open>districts\<close> that is not an array has no \<^verbatim>\<open>sort\<close> method.\<close>

definition fetchDistricts_try :: "error + json \<Rightarrow> provider \<Rightarrow> error + provider" where
  "fetchDistricts_try response st =
     (case response of
        Inl e \<Rightarrow> Inl e
      | Inr body \<Rightarrow>
          (case js_or (get_field body ''districts'') (JArr []) of
             JArr districtList \<Rightarrow> Inr (st\<lparr>districts := js_sort districtList\<rparr>)
           | other \<Rightarrow> Inl TypeError))"

definition fetchDistricts_settled :: "error + json \<Rightarrow> provider \<Rightarrow> error + provider" where
  "fetchDistricts_settled response st =
     (let after = (case fetchDistricts_try response st of Inr st' \<Rightarrow> st' | Inl e \<Rightarrow> st\<lparr>districts := []\<rparr>)
      in Inr (after\<lparr>isLoadingDistricts := False\<rparr>))"

text \<open>The event loop hands the response of a request in flight to the function that
  awaits it.\<close>

definition deliver :: "request \<Rightarrow> error + json \<Rightarrow> provider \<Rightarrow> error + provider" where
  "deliver q response st =
     (let st0 = st\<lparr>inflight := remove1 q (inflight st)\<rparr>
      in if q = states_request then fetchStates_settled response st0
         else fetchDistricts_settled response st0)"

text \<open>\<^verbatim>\<open>locationLabel\<close>: a ternary on truthiness; the template literal prints a null
  \<^verbatim>\<open>selectedState\<close> as \<^verbatim>\<open>null\<close>.\<close>

definition locationLabel :: "'a LocationState_scheme \<Rightarrow> string" where
  "locationLabel st =
     (case selectedDistrict st of
        Some d \<Rightarrow>
          if d \<noteq> [] then d @ '', '' @ (case selectedState st of Some s \<Rightarrow> s | None \<Rightarrow> ''null'')
          else (case selectedState st of Some s \<Rightarrow> if s \<noteq> [] then s else ''All India'' | None \<Rightarrow> ''All India'')
      | None \<Rightarrow>
          (case selectedState st of Some s \<Rightarrow> if s \<noteq> [] then s else ''All India'' | None \<Rightarrow> ''All India''))"

text \<open>The states the provider can be in, as the pages can read them: mounted, then any
  sequence of setter calls, effect runs and responses to requests in flight. A call of
  \<^verbatim>\<open>setSelectedState\<close> is committed first and its effect runs as a step of its own, so
  the render in between is a state too; each call is committed on its own, and a
  \<^verbatim>\<open>setSelectedDistrict\<close> of the same handler (the reset button) falls between the two.
  \<open>may_select d st\<close> says which district a caller may pass to
  \<^verbatim>\<open>setSelectedDistrict\<close> in state \<open>st\<close>.\<close>

inductive reach :: "(string option \<Rightarrow> provider \<Rightarrow> bool) \<Rightarrow> provider \<Rightarrow> bool"
  for may_select :: "string option \<Rightarrow> provider \<Rightarrow> bool" where
  reach_mounted: "reach may_select mounted"
| reach_render:
    "reach may_select st \<Longrightarrow> \<not> effectPending st \<Longrightarrow> reach may_select (setSelectedState_render v st)"
| reach_effect:
    "reach may_select st \<Longrightarrow> effectPending st \<Longrightarrow> reach may_select (selectedState_effect st)"
| reach_district:
    "reach may_select st \<Longrightarrow> may_select d st \<Longrightarrow> reach may_select (setSelectedDistrict d st)"
| reach_response:
    "reach may_select st \<Longrightarrow> q \<in> set (inflight st) \<Longrightarrow> deliver q response st = Inr st'
       \<Longrightarrow> reach may_select st'"

text \<open>The provider puts no condition on its setters.\<close>

definition any_caller :: "string option \<Rightarrow> provider \<Rightarrow> bool" where
  "any_caller d st = True"

text \<open>\<^verbatim>\<open>LocationSelector\<close> (App.tsx) renders the district menu under
  \<^verbatim>\<open>{selectedState && (...)}\<close>: a district is chosen only while a state is selected;
  \<^verbatim>\<open>setSelectedDistrict(null)\<close> is also called by the reset button.\<close>

definition location_selector :: "string option \<Rightarrow> provider \<Rightarrow> bool" where
  "location_selector d st =
     (d = None \<or> (case selectedState st of Some s \<Rightarrow> s \<noteq> [] | None \<Rightarrow> False))"

section \<open>Properties of the API client\<close>

lemma spread_if_lookup:
  "map_of (spread_if k v) k' =
     (case v of Str s \<Rightarrow> if s \<noteq> [] \<and> k' = k then Some s else None | _ \<Rightarrow> None)"
  by (cases v) auto

lemma spread_if_keys:
  "fst ` set (spread_if k v) = (case v of Str s \<Rightarrow> if s \<noteq> [] then {k} else {} | _ \<Rightarrow> {})"
  by (cases v) auto

lemmas request_defs =
  fetchEnrollmentSummary_request_def fetchDemographicSummary_request_def
  fetchBiometricSummary_request_def fetchEnrollmentTrends_request_def
  fetchDemographicTrends_request_def fetchBiometricTrends_request_def

text \<open>
  C1 (as amended). For every response body \<open>r\<close>, \<^verbatim>\<open>fetchHeatmapData\<close> follows the chain
  \<^verbatim>\<open>r?.locations || r || []\<close> on truthiness: a truthy \<^verbatim>\<open>locations\<close> field (every array
  is one) is returned; otherwise a truthy body is returned unchanged, which covers a
  bare array and also an object without \<^verbatim>\<open>locations\<close>; only a falsy body (null,
  undefined, false, 0, the empty string) yields the empty array.
\<close>

theorem fetchHeatmapData_fallback_chain:
  "(truthy (get_field r ''locations'') \<longrightarrow>
      fetchHeatmapData (\<lambda>_. Inr r) fmt d ty = Inr (get_field r ''locations''))
   \<and> (\<forall>xs. get_field r ''locations'' = JArr xs \<longrightarrow>
      fetchHeatmapData (\<lambda>_. Inr r) fmt d ty = Inr (JArr xs))
   \<and> (\<forall>xs. r = JArr xs \<longrightarrow> fetchHeatmapData (\<lambda>_. Inr r) fmt d ty = Inr r)
   \<and> (\<not> truthy (get_field r ''locations'') \<and> truthy r \<longrightarrow>
      fetchHeatmapData (\<lambda>_. Inr r) fmt d ty = Inr r)
   \<and> (\<not> truthy r \<longrightarrow> fetchHeatmapData (\<lambda>_. Inr r) fmt d ty = Inr (JArr []))"
  by (cases r) (auto simp: fetchHeatmapData_def unwrapped_def unwrap_def js_or_def)

theorem fetchHeatmapData_fallback_chain_witness:
  "fetchHeatmapData (\<lambda>_. Inr (JObj [(''locations'', JArr [JNum 1, JNum 2])])) (\<lambda>d. d) ''2025-12-15'' None
     = Inr (JArr [JNum 1, JNum 2])
   \<and> fetchHeatmapData (\<lambda>_. Inr (JArr [JNum 7])) (\<lambda>d. d) ''2025-12-15'' None = Inr (JArr [JNum 7])
   \<and> fetchHeatmapData (\<lambda>_. Inr JNull) (\<lambda>d. d) ''2025-12-15'' None = Inr (JArr [])"
  using fetchHeatmapData_fallback_chain [of "JObj [(''locations'', JArr [JNum 1, JNum 2])]" "\<lambda>d. d" "''2025-12-15''" None]
    fetchHeatmapData_fallback_chain [of "JArr [JNum 7]" "\<lambda>d. d" "''2025-12-15''" None]
    fetchHeatmapData_fallback_chain [of JNull "\<lambda>d. d" "''2025-12-15''" None]
  by simp

text \<open>
  C1 as stated fails: the body \<^verbatim>\<open>{ "count": 3 }\<close> is an object without \<^verbatim>\<open>locations\<close>,
  and \<^verbatim>\<open>fetchHeatmapData\<close> returns that object, not the empty array.
\<close>

theorem fetchHeatmapData_object_without_locations:
  "get_field (JObj [(''count'', JNum 3)]) ''locations'' = JUndefined
   \<and> fetchHeatmapData (\<lambda>_. Inr (JObj [(''count'', JNum 3)])) (\<lambda>d. d) ''2025-12-15'' None
       = Inr (JObj [(''count'', JNum 3)])
   \<and> fetchHeatmapData (\<lambda>_. Inr (JObj [(''count'', JNum 3)])) (\<lambda>d. d) ''2025-12-15'' None
       \<noteq> Inr (JArr [])"
  by (simp add: fetchHeatmapData_def unwrapped_def unwrap_def js_or_def)

text \<open>
  C2. For every filter (also an omitted one) and every transport, each of the six
  filtered summary and trend functions hands the transport one GET request whose
  parameters hold \<^verbatim>\<open>state\<close> (and \<^verbatim>\<open>district\<close>) with the field's value when the field
  is a non-empty string, and have no such key at all when the field is undefined, null
  or the empty string. \<^verbatim>\<open>fetchCapacityPlanning\<close> treats its \<^verbatim>\<open>state\<close> and \<^verbatim>\<open>district\<close>
  arguments the same way.
\<close>

theorem filter_fields_sent_only_when_set:
  "fetchEnrollmentSummary net fmt d f = net (fetchEnrollmentSummary_request fmt d f)
   \<and> fetchDemographicSummary net fmt d f = net (fetchDemographicSummary_request fmt d f)
   \<and> fetchBiometricSummary net fmt d f = net (fetchBiometricSummary_request fmt d f)
   \<and> fetchEnrollmentTrends net fmt d f
       = unwrapped ''data'' (net (fetchEnrollmentTrends_request fmt d f))
   \<and> fetchDemographicTrends net fmt d f
       = unwrapped ''data'' (net (fetchDemographicTrends_request fmt d f))
   \<and> fetchBiometricTrends net fmt d f
       = unwrapped ''data'' (net (fetchBiometricTrends_request fmt d f))
   \<and> fetchCapacityPlanning net st di period level
       = net (fetchCapacityPlanning_request st di period level)
   \<and> (\<forall>req \<in> {fetchEnrollmentSummary_request fmt d f, fetchDemographicSummary_request fmt d f,
        fetchBiometricSummary_request fmt d f, fetchEnrollmentTrends_request fmt d f,
        fetchDemographicTrends_request fmt d f, fetchBiometricTrends_request fmt d f}.
      verb req = GET
      \<and> (\<forall>s. opt_field state f = Str s \<and> s \<noteq> [] \<longrightarrow> map_of (params req) ''state'' = Some s)
      \<and> (opt_field state f \<in> {Undefined, Null, Str []} \<longrightarrow> ''state'' \<notin> fst ` set (params req))
      \<and> (\<forall>s. opt_field district f = Str s \<and> s \<noteq> [] \<longrightarrow> map_of (params req) ''district'' = Some s)
      \<and> (opt_field district f \<in> {Undefined, Null, Str []} \<longrightarrow> ''district'' \<notin> fst ` set (params req)))
   \<and> verb (fetchCapacityPlanning_request st di period level) = GET
   \<and> (\<forall>s. st = Str s \<and> s \<noteq> [] \<longrightarrow>
         map_of (params (fetchCapacityPlanning_request st di period level)) ''state'' = Some s)
   \<and> (st \<in> {Undefined, Null, Str []} \<longrightarrow>
         ''state'' \<notin> fst ` set (params (fetchCapacityPlanning_request st di period level)))
   \<and> (\<forall>s. di = Str s \<and> s \<noteq> [] \<longrightarrow>
         map_of (params (fetchCapacityPlanning_request st di period level)) ''district'' = Some s)
   \<and> (di \<in> {Undefined, Null, Str []} \<longrightarrow>
         ''district'' \<notin> fst ` set (params (fetchCapacityPlanning_request st di period level)))"
proof -
  have calls: "fetchEnrollmentSummary net fmt d f = net (fetchEnrollmentSummary_request fmt d f)
   \<and> fetchDemographicSummary net fmt d f = net (fetchDemographicSummary_request fmt d f)
   \<and> fetchBiometricSummary net fmt d f = net (fetchBiometricSummary_request fmt d f)
   \<and> fetchEnrollmentTrends net fmt d f
       = unwrapped ''data'' (net (fetchEnrollmentTrends_request fmt d f))
   \<and> fetchDemographicTrends net fmt d f
       = unwrapped ''data'' (net (fetchDemographicTrends_request fmt d f))
   \<and> fetchBiometricTrends net fmt d f
       = unwrapped ''data'' (net (fetchBiometricTrends_request fmt d f))
   \<and> fetchCapacityPlanning net st di period level
       = net (fetchCapacityPlanning_request st di period level)"
    by (simp add: fetchEnrollmentSummary_def fetchDemographicSummary_def fetchBiometricSummary_def
        fetchEnrollmentTrends_def fetchDemographicTrends_def fetchBiometricTrends_def
        fetchCapacityPlanning_def)
  have summaries: "\<forall>req \<in> {fetchEnrollmentSummary_request fmt d f, fetchDemographicSummary_request fmt d f,
        fetchBiometricSummary_request fmt d f, fetchEnrollmentTrends_request fmt d f,
        fetchDemographicTrends_request fmt d f, fetchBiometricTrends_request fmt d f}.
      verb req = GET
      \<and> (\<forall>s. opt_field state f = Str s \<and> s \<noteq> [] \<longrightarrow> map_of (params req) ''state'' = Some s)
      \<and> (opt_field state f \<in> {Undefined, Null, Str []} \<longrightarrow> ''state'' \<notin> fst ` set (params req))
      \<and> (\<forall>s. opt_field district f = Str s \<and> s \<noteq> [] \<longrightarrow> map_of (params req) ''district'' = Some s)
      \<and> (opt_field district f \<in> {Undefined, Null, Str []} \<longrightarrow> ''district'' \<notin> fst ` set (params req))"
    by (auto simp: request_defs map_add_def spread_if_lookup spread_if_keys
        split: jstr.splits option.splits if_splits)
  have capacity_verb: "verb (fetchCapacityPlanning_request st di period level) = GET"
    by (simp add: fetchCapacityPlanning_request_def)
  have capacity_state: "st = Str s \<and> s \<noteq> [] \<longrightarrow>
         map_of (params (fetchCapacityPlanning_request st di period level)) ''state'' = Some s" for s
    by (auto simp: fetchCapacityPlanning_request_def map_add_def spread_if_lookup
        split: jstr.splits option.splits)
  have capacity_no_state: "st \<in> {Undefined, Null, Str []} \<longrightarrow>
         ''state'' \<notin> fst ` set (params (fetchCapacityPlanning_request st di period level))"
    by (auto simp: fetchCapacityPlanning_request_def image_Un spread_if_keys
        split: jstr.splits if_splits)
  have capacity_district: "di = Str s \<and> s \<noteq> [] \<longrightarrow>
         map_of (params (fetchCapacityPlanning_request st di period level)) ''district'' = Some s" for s
    by (auto simp: fetchCapacityPlanning_request_def map_add_def spread_if_lookup
        split: jstr.splits option.splits)
  have capacity_no_district: "di \<in> {Undefined, Null, Str []} \<longrightarrow>
         ''district'' \<notin> fst ` set (params (fetchCapacityPlanning_request st di period level))"
    by (auto simp: fetchCapacityPlanning_request_def image_Un spread_if_keys
        split: jstr.splits if_splits)
  from calls summaries capacity_verb capacity_state capacity_no_state capacity_district
    capacity_no_district
  show ?thesis by blast
qed

text \<open>The filter \<^verbatim>\<open>{state: "Odisha", district: null}\<close> of the spec, on a transport that
  answers with what it was handed: the request that arrives carries
  \<^verbatim>\<open>simulation_date\<close> and \<^verbatim>\<open>state=Odisha\<close> and no \<^verbatim>\<open>district\<close>.\<close>

theorem filter_fields_sent_only_when_set_witness:
  "fetchEnrollmentSummary echo (\<lambda>d. d) ''2025-12-15'' (Some \<lparr>state = Str ''Odisha'', district = Null\<rparr>)
     = Inr (JObj [(''verb'', JStr ''GET''), (''path'', JStr ''/api/enrollment/summary''),
          (''params'', JObj [(''simulation_date'', JStr ''2025-12-15''), (''state'', JStr ''Odisha'')])])
   \<and> fetchBiometricTrends echo (\<lambda>d. d) ''2025-12-15'' (Some \<lparr>state = Str '''', district = Str ''Puri''\<rparr>)
     = Inr (JObj [(''verb'', JStr ''GET''), (''path'', JStr ''/api/biometric/trends''),
          (''params'', JObj [(''simulation_date'', JStr ''2025-12-15''), (''district'', JStr ''Puri'')])])
   \<and> fetchCapacityPlanning echo (Str ''Odisha'') Null Undefined Undefined
     = Inr (JObj [(''verb'', JStr ''GET''), (''path'', JStr ''/api/ml-v2/capacity''),
          (''params'', JObj [(''state'', JStr ''Odisha'')])])"
proof -
  note odisha = filter_fields_sent_only_when_set [of echo "\<lambda>d. d" "''2025-12-15''"
      "Some \<lparr>state = Str ''Odisha'', district = Null\<rparr>" "Str ''Odisha''" Null Undefined Undefined]
  note puri = filter_fields_sent_only_when_set [of echo "\<lambda>d. d" "''2025-12-15''"
      "Some \<lparr>state = Str '''', district = Str ''Puri''\<rparr>" Undefined Undefined Undefined Undefined]
  have summary: "fetchEnrollmentSummary echo (\<lambda>d. d) ''2025-12-15'' (Some \<lparr>state = Str ''Odisha'', district = Null\<rparr>)
      = echo (fetchEnrollmentSummary_request (\<lambda>d. d) ''2025-12-15'' (Some \<lparr>state = Str ''Odisha'', district = Null\<rparr>))"
    by (rule odisha [THEN conjunct1])
  have trends: "fetchBiometricTrends echo (\<lambda>d. d) ''2025-12-15'' (Some \<lparr>state = Str '''', district = Str ''Puri''\<rparr>)
      = unwrapped ''data'' (echo (fetchBiometricTrends_request (\<lambda>d. d) ''2025-12-15''
          (Some \<lparr>state = Str '''', district = Str ''Puri''\<rparr>)))"
    by (rule puri [THEN conjunct2, THEN conjunct2, THEN conjunct2, THEN conjunct2,
          THEN conjunct2, THEN conjunct1])
  have capacity: "fetchCapacityPlanning echo (Str ''Odisha'') Null Undefined Undefined
      = echo (fetchCapacityPlanning_request (Str ''Odisha'') Null Undefined Undefined)"
    by (rule odisha [THEN conjunct2, THEN conjunct2, THEN conjunct2, THEN conjunct2,
          THEN conjunct2, THEN conjunct2, THEN conjunct1])
  show ?thesis
    unfolding summary trends capacity
    by (simp add: echo_def opt_field_def fetchEnrollmentSummary_request_def
        fetchBiometricTrends_request_def fetchCapacityPlanning_request_def
        unwrapped_def unwrap_def js_or_def)
qed

text \<open>
  C9. For every simulation date and every filter, \<^verbatim>\<open>fetchAnomalies\<close> sends a GET to
  \<^verbatim>\<open>/api/anomaly/detect\<close> whose parameters hold \<^verbatim>\<open>simulation_date\<close>, hold \<^verbatim>\<open>state\<close>
  exactly when the filter's state is a non-empty string, and never hold \<^verbatim>\<open>district\<close>,
  whatever the filter's district is.
\<close>

theorem fetchAnomalies_request_shape:
  "verb (fetchAnomalies_request fmt d f) = GET
   \<and> path (fetchAnomalies_request fmt d f) = ''/api/anomaly/detect''
   \<and> map_of (params (fetchAnomalies_request fmt d f)) ''simulation_date'' = Some (fmt d)
   \<and> (\<forall>s. opt_field state f = Str s \<and> s \<noteq> [] \<longrightarrow>
         map_of (params (fetchAnomalies_request fmt d f)) ''state'' = Some s)
   \<and> (opt_field state f \<in> {Undefined, Null, Str []} \<longrightarrow>
         ''state'' \<notin> fst ` set (params (fetchAnomalies_request fmt d f)))
   \<and> ''district'' \<notin> fst ` set (params (fetchAnomalies_request fmt d f))
   \<and> fetchAnomalies net fmt d f = unwrapped ''anomalies'' (net (fetchAnomalies_request fmt d f))"
  by (auto simp: fetchAnomalies_request_def fetchAnomalies_def spread_if_keys
      split: jstr.splits if_splits)

theorem fetchAnomalies_request_shape_witness:
  "fetchAnomalies_request (\<lambda>d. d) ''2025-12-15'' (Some \<lparr>state = Str ''Odisha'', district = Str ''Puri''\<rparr>)
     = \<lparr>verb = GET, path = ''/api/anomaly/detect'',
        params = [(''simulation_date'', ''2025-12-15''), (''state'', ''Odisha'')]\<rparr>
   \<and> ''district'' \<notin> fst ` set (params (fetchAnomalies_request (\<lambda>d. d) ''2025-12-15''
        (Some \<lparr>state = Str ''Odisha'', district = Str ''Puri''\<rparr>)))"
  using fetchAnomalies_request_shape [of "\<lambda>d. d" "''2025-12-15''"
      "Some \<lparr>state = Str ''Odisha'', district = Str ''Puri''\<rparr>" "\<lambda>_. Inl RequestFailed"]
  by (simp add: opt_field_def fetchAnomalies_request_def)


section \<open>Properties of the state list\<close>

text \<open>
  C6. The table is read with \<^verbatim>\<open>stateNormalization[normalized]\<close>, which also finds what
  the object literal inherits. The name \<^verbatim>\<open>Constructor\<close> has the key \<^verbatim>\<open>constructor\<close>, which
  is not in the table, so by the claim it is title-cased; the code puts the function
  \<^verbatim>\<open>Object\<close> into \<^verbatim>\<open>states\<close> instead, while \<^verbatim>\<open>orissa\<close> and \<^verbatim>\<open>goa\<close> beside it are
  normalised as the claim says.
\<close>

theorem states_hold_inherited_member:
  "fetchStates_settled
     (Inr (JObj [(''states'', JArr [JStr ''orissa'', JStr ''Constructor'', JStr ''goa''])])) mounted
     = Inr (mounted\<lparr>states := [Name ''Goa'', Name ''Odisha'', Object_constructor],
                    isLoadingStates := False\<rparr>)"
proof -
  have "uniqueStates (JObj [(''states'', JArr [JStr ''orissa'', JStr ''Constructor'', JStr ''goa''])])
      = Inr [Name ''Goa'', Name ''Odisha'', Object_constructor]"
    by code_simp
  then show ?thesis
    by (simp add: fetchStates_settled_def fetchStates_try_def)
qed

text \<open>
  C10. The filter runs on the entries as received, before they are trimmed. The
  entries \<^verbatim>\<open>" "\<close> and \<^verbatim>\<open>" 12"\<close> are neither falsy nor made of digits only, so they are
  kept (the entry \<^verbatim>\<open>"12"\<close> is discarded); trimming then turns them into the empty
  string and into \<^verbatim>\<open>12\<close>, and both end up in \<^verbatim>\<open>states\<close>.
\<close>

theorem states_keep_blank_and_padded_digits:
  "fetchStates_settled (Inr (JObj [(''states'', JArr [JStr '' '', JStr '' 12'', JStr ''12''])])) mounted
     = Inr (mounted\<lparr>states := [Name '''', Name ''12''], isLoadingStates := False\<rparr>)"
proof -
  have "uniqueStates (JObj [(''states'', JArr [JStr '' '', JStr '' 12'', JStr ''12''])])
      = Inr [Name '''', Name ''12'']"
    by code_simp
  then show ?thesis
    by (simp add: fetchStates_settled_def fetchStates_try_def)
qed


section \<open>Properties of the location context\<close>

lemma districts_request_neq_states_request: "districts_request s \<noteq> states_request"
  by (simp add: districts_request_def states_request_def)

lemma deliver_districts:
  "q \<noteq> states_request \<Longrightarrow>
   deliver q response st = fetchDistricts_settled response (st\<lparr>inflight := remove1 q (inflight st)\<rparr>)"
  by (simp add: deliver_def)

lemma deliver_states:
  "deliver states_request response st
     = fetchStates_settled response (st\<lparr>inflight := remove1 states_request (inflight st)\<rparr>)"
  by (simp add: deliver_def)

lemma fetchDistricts_settled_body:
  "js_or (get_field body ''districts'') (JArr []) = JArr list \<Longrightarrow>
   fetchDistricts_settled (Inr body) st = Inr (st\<lparr>districts := js_sort list, isLoadingDistricts := False\<rparr>)"
  by (simp add: fetchDistricts_settled_def fetchDistricts_try_def)

lemma fetchDistricts_settled_failed:
  "fetchDistricts_settled (Inl e) st = Inr (st\<lparr>districts := [], isLoadingDistricts := False\<rparr>)"
  by (simp add: fetchDistricts_settled_def fetchDistricts_try_def)

lemma fetchStates_settled_failed:
  "fetchStates_settled (Inl e) st = Inr (st\<lparr>isLoadingStates := False\<rparr>)"
  by (simp add: fetchStates_settled_def fetchStates_try_def)

lemma setSelectedState_changed_some:
  "Some s \<noteq> selectedState st \<Longrightarrow> s \<noteq> [] \<Longrightarrow>
   setSelectedState (Some s) st
     = st\<lparr>selectedState := Some s, selectedDistrict := None, isLoadingDistricts := True,
          effectPending := False,
          issued := issued st @ [districts_request s], inflight := inflight st @ [districts_request s]\<rparr>"
  by (simp add: setSelectedState_def setSelectedState_render_def selectedState_effect_def send_def)

lemma setSelectedState_changed_falsy:
  "v \<noteq> selectedState st \<Longrightarrow> v = None \<or> v = Some [] \<Longrightarrow>
   setSelectedState v st
     = st\<lparr>selectedState := v, selectedDistrict := None, districts := [], effectPending := False\<rparr>"
  by (auto simp: setSelectedState_def setSelectedState_render_def selectedState_effect_def)

lemma reach_state:
  assumes "reach may_select st" and "\<not> effectPending st"
  shows "reach may_select (setSelectedState v st)"
proof (cases "v = selectedState st")
  case True
  with assms(1) show ?thesis by (simp add: setSelectedState_def)
next
  case False
  from assms have "reach may_select (setSelectedState_render v st)"
    by (rule reach_render)
  moreover from False have "effectPending (setSelectedState_render v st)"
    by (simp add: setSelectedState_render_def)
  ultimately have "reach may_select (selectedState_effect (setSelectedState_render v st))"
    by (rule reach_effect)
  with False show ?thesis by (simp add: setSelectedState_def)
qed

lemma mounted_eq:
  "mounted = initial\<lparr>issued := [states_request], inflight := [states_request]\<rparr>"
  by (simp add: mounted_def selectedState_effect_def send_def initial_def)

text \<open>
  C3 (as amended). Calling \<^verbatim>\<open>setSelectedState(v)\<close> with the value already held changes
  nothing. With a different value, \<^verbatim>\<open>selectedDistrict\<close> is null afterwards; if \<open>v\<close> is a
  non-empty string, exactly one request for the districts of \<open>v\<close> is sent, the loading
  flag is raised, and when its response arrives the (sorted) list it carries replaces
  \<^verbatim>\<open>districts\<close> without any further request; if \<open>v\<close> is null or the empty string,
  \<^verbatim>\<open>districts\<close> is cleared and no request is sent.
\<close>

theorem setSelectedState_effects:
  "(v = selectedState st \<longrightarrow> setSelectedState v st = st)
   \<and> (v \<noteq> selectedState st \<longrightarrow>
        selectedState (setSelectedState v st) = v
      \<and> selectedDistrict (setSelectedState v st) = None
      \<and> (\<forall>s. v = Some s \<and> s \<noteq> [] \<longrightarrow>
            issued (setSelectedState v st) = issued st @ [districts_request s]
          \<and> inflight (setSelectedState v st) = inflight st @ [districts_request s]
          \<and> isLoadingDistricts (setSelectedState v st)
          \<and> (\<forall>body list. js_or (get_field body ''districts'') (JArr []) = JArr list \<longrightarrow>
                (\<exists>st'. deliver (districts_request s) (Inr body) (setSelectedState v st) = Inr st'
                   \<and> districts st' = js_sort list
                   \<and> issued st' = issued st @ [districts_request s])))
      \<and> (v = None \<or> v = Some [] \<longrightarrow>
            districts (setSelectedState v st) = []
          \<and> issued (setSelectedState v st) = issued st
          \<and> inflight (setSelectedState v st) = inflight st))"
proof -
  have same: "v = selectedState st \<longrightarrow> setSelectedState v st = st"
    by (simp add: setSelectedState_def)
  have basic: "v \<noteq> selectedState st \<longrightarrow>
      selectedState (setSelectedState v st) = v \<and> selectedDistrict (setSelectedState v st) = None"
    by (auto simp: setSelectedState_def setSelectedState_render_def selectedState_effect_def send_def
        split: option.splits)
  have fetch: "v \<noteq> selectedState st \<longrightarrow> (\<forall>s. v = Some s \<and> s \<noteq> [] \<longrightarrow>
            issued (setSelectedState v st) = issued st @ [districts_request s]
          \<and> inflight (setSelectedState v st) = inflight st @ [districts_request s]
          \<and> isLoadingDistricts (setSelectedState v st)
          \<and> (\<forall>body list. js_or (get_field body ''districts'') (JArr []) = JArr list \<longrightarrow>
                (\<exists>st'. deliver (districts_request s) (Inr body) (setSelectedState v st) = Inr st'
                   \<and> districts st' = js_sort list
                   \<and> issued st' = issued st @ [districts_request s])))"
    by (auto simp: setSelectedState_changed_some deliver_districts
        districts_request_neq_states_request fetchDistricts_settled_body)
  have falsy: "v \<noteq> selectedState st \<longrightarrow> (v = None \<or> v = Some [] \<longrightarrow>
            districts (setSelectedState v st) = []
          \<and> issued (setSelectedState v st) = issued st
          \<and> inflight (setSelectedState v st) = inflight st)"
    by (auto simp: setSelectedState_changed_falsy)
  from same basic fetch falsy show ?thesis by blast
qed

theorem setSelectedState_effects_witness:
  "selectedDistrict (setSelectedState (Some ''Odisha'') (setSelectedDistrict (Some ''Puri'') mounted)) = None
   \<and> issued (setSelectedState (Some ''Odisha'') (setSelectedDistrict (Some ''Puri'') mounted))
       = [states_request, districts_request ''Odisha'']
   \<and> districts (setSelectedState None (setSelectedState (Some ''Odisha'') mounted)) = []
   \<and> issued (setSelectedState None (setSelectedState (Some ''Odisha'') mounted))
       = issued (setSelectedState (Some ''Odisha'') mounted)"
  using setSelectedState_effects [of "Some ''Odisha''" "setSelectedDistrict (Some ''Puri'') mounted"]
    setSelectedState_effects [of None "setSelectedState (Some ''Odisha'') mounted"]
  by (simp add: setSelectedState_def setSelectedState_render_def setSelectedDistrict_def mounted_def
      selectedState_effect_def send_def initial_def)

text \<open>
  C3 as stated fails. With Odisha selected and the district Puri chosen, selecting
  Odisha again leaves the district Puri in place and sends nothing, although the value
  is non-null; and selecting the empty string, which is non-null, sends no request.
\<close>

theorem setSelectedState_same_value_or_empty:
  "selectedDistrict
     (setSelectedState (Some ''Odisha'')
        (setSelectedDistrict (Some ''Puri'') (setSelectedState (Some ''Odisha'') mounted)))
     = Some ''Puri''
   \<and> issued
     (setSelectedState (Some ''Odisha'')
        (setSelectedDistrict (Some ''Puri'') (setSelectedState (Some ''Odisha'') mounted)))
     = issued (setSelectedDistrict (Some ''Puri'') (setSelectedState (Some ''Odisha'') mounted))
   \<and> issued (setSelectedState (Some '''') mounted) = issued mounted"
  by (simp add: setSelectedState_def setSelectedState_render_def setSelectedDistrict_def mounted_def
      selectedState_effect_def send_def initial_def)

lemma deliver_keeps_selection:
  "deliver q response st = Inr st' \<Longrightarrow>
   selectedState st' = selectedState st \<and> selectedDistrict st' = selectedDistrict st
   \<and> effectPending st' = effectPending st"
  by (auto simp: deliver_def fetchStates_settled_def fetchStates_try_def
      fetchDistricts_settled_def fetchDistricts_try_def Let_def
      split: if_splits sum.splits json.splits)

text \<open>
  C4 as stated fails, in two ways. The provider exposes the raw setter, so
  \<^verbatim>\<open>setSelectedDistrict("Puri")\<close> right after mounting gives a district without a state.
  And with the setters called only as \<^verbatim>\<open>LocationSelector\<close> calls them: select Odisha,
  choose Puri, then select All India; the render committed by that last call holds
  \<^verbatim>\<open>selectedState = null\<close> beside \<^verbatim>\<open>selectedDistrict = "Puri"\<close>, because the district is
  reset only by the effect that runs after the commit.
\<close>

theorem district_without_state_reachable:
  "reach any_caller (setSelectedDistrict (Some ''Puri'') mounted)
   \<and> \<not> effectPending (setSelectedDistrict (Some ''Puri'') mounted)
   \<and> selectedDistrict (setSelectedDistrict (Some ''Puri'') mounted) = Some ''Puri''
   \<and> selectedState (setSelectedDistrict (Some ''Puri'') mounted) = None
   \<and> reach location_selector
       (setSelectedState_render None
          (setSelectedDistrict (Some ''Puri'') (setSelectedState (Some ''Odisha'') mounted)))
   \<and> selectedDistrict
       (setSelectedState_render None
          (setSelectedDistrict (Some ''Puri'') (setSelectedState (Some ''Odisha'') mounted)))
       = Some ''Puri''
   \<and> selectedState
       (setSelectedState_render None
          (setSelectedDistrict (Some ''Puri'') (setSelectedState (Some ''Odisha'') mounted)))
       = None"
proof -
  let ?odisha = "setSelectedState (Some ''Odisha'') mounted"
  let ?puri = "setSelectedDistrict (Some ''Puri'') ?odisha"
  have raw: "reach any_caller (setSelectedDistrict (Some ''Puri'') mounted)"
    by (rule reach_district [OF reach_mounted]) (simp add: any_caller_def)
  have odisha: "?odisha = mounted\<lparr>selectedState := Some ''Odisha'', isLoadingDistricts := True,
      issued := [states_request, districts_request ''Odisha''],
      inflight := [states_request, districts_request ''Odisha'']\<rparr>"
    by (simp add: setSelectedState_def setSelectedState_render_def selectedState_effect_def
        send_def mounted_eq initial_def)
  have "reach location_selector ?odisha"
    by (rule reach_state [OF reach_mounted]) (simp add: mounted_eq initial_def)
  then have "reach location_selector ?puri"
    by (rule reach_district) (simp add: location_selector_def odisha)
  moreover have "\<not> effectPending ?puri"
    unfolding odisha by (simp add: setSelectedDistrict_def mounted_eq initial_def)
  ultimately have ui: "reach location_selector (setSelectedState_render None ?puri)"
    by (rule reach_render)
  from raw ui show ?thesis
    unfolding odisha
    by (simp add: setSelectedState_render_def setSelectedDistrict_def mounted_eq initial_def)
qed

text \<open>
  C4 (as amended). In every state reached from the mounted provider through
  \<^verbatim>\<open>setSelectedState\<close> (any value), through \<^verbatim>\<open>setSelectedDistrict\<close> called the way
  \<^verbatim>\<open>LocationSelector\<close> calls it (with null, or with a district while a non-empty state
  is selected), through the effect and through responses arriving: when no effect of
  a \<^verbatim>\<open>selectedState\<close> change is still due, a non-null \<^verbatim>\<open>selectedDistrict\<close> implies a
  non-null \<^verbatim>\<open>selectedState\<close>. Nothing is said about the render between a change of
  \<^verbatim>\<open>selectedState\<close> and its effect.
\<close>

theorem district_implies_state:
  "reach location_selector st \<Longrightarrow> \<not> effectPending st \<Longrightarrow> selectedDistrict st \<noteq> None
     \<Longrightarrow> selectedState st \<noteq> None"
proof (induction rule: reach.induct)
  case reach_mounted
  then show ?case by (simp add: mounted_eq initial_def)
next
  case (reach_render st v)
  show ?case
  proof (cases "v = selectedState st")
    case True
    with reach_render show ?thesis by (simp add: setSelectedState_render_def)
  next
    case False
    with reach_render.prems(1) show ?thesis by (simp add: setSelectedState_render_def)
  qed
next
  case (reach_effect st)
  from reach_effect.prems(2) show ?case
    by (simp add: selectedState_effect_def send_def split: option.splits if_splits)
next
  case (reach_district st d)
  then show ?case
    by (auto simp: setSelectedDistrict_def location_selector_def split: option.splits)
next
  case (reach_response st q response st')
  from deliver_keeps_selection [OF reach_response.hyps(3)] reach_response.IH reach_response.prems
  show ?case by simp
qed

theorem district_implies_state_witness:
  "\<not> effectPending (setSelectedDistrict (Some ''Puri'') (setSelectedState (Some ''Odisha'') mounted))
   \<and> selectedDistrict (setSelectedDistrict (Some ''Puri'') (setSelectedState (Some ''Odisha'') mounted)) = Some ''Puri''
   \<and> selectedState (setSelectedDistrict (Some ''Puri'') (setSelectedState (Some ''Odisha'') mounted)) \<noteq> None"
proof -
  let ?odisha = "setSelectedState (Some ''Odisha'') mounted"
  let ?st = "setSelectedDistrict (Some ''Puri'') ?odisha"
  have odisha: "?odisha = mounted\<lparr>selectedState := Some ''Odisha'', isLoadingDistricts := True,
      issued := [states_request, districts_request ''Odisha''],
      inflight := [states_request, districts_request ''Odisha'']\<rparr>"
    by (simp add: setSelectedState_def setSelectedState_render_def selectedState_effect_def
        send_def mounted_eq initial_def)
  have "reach location_selector ?odisha"
    by (rule reach_state [OF reach_mounted]) (simp add: mounted_eq initial_def)
  then have r: "reach location_selector ?st"
    by (rule reach_district) (simp add: location_selector_def odisha)
  have p: "\<not> effectPending ?st"
    unfolding odisha by (simp add: setSelectedDistrict_def mounted_eq initial_def)
  have d: "selectedDistrict ?st = Some ''Puri''"
    by (simp add: setSelectedDistrict_def)
  then have "selectedDistrict ?st \<noteq> None" by simp
  with district_implies_state [OF r p] have "selectedState ?st \<noteq> None" .
  with p d show ?thesis by simp
qed

text \<open>
  C7 (as amended). \<^verbatim>\<open>locationLabel\<close> is \<^verbatim>\<open>`${district}, ${state}`\<close> when
  \<^verbatim>\<open>selectedDistrict\<close> is non-null and non-empty (a null state prints as \<^verbatim>\<open>null\<close>), else
  \<^verbatim>\<open>selectedState\<close> when that is non-null and non-empty, else \<^verbatim>\<open>All India\<close>.
\<close>

theorem locationLabel_cases:
  "(\<forall>d. selectedDistrict st = Some d \<and> d \<noteq> [] \<longrightarrow>
       locationLabel st = d @ '', '' @ (case selectedState st of Some s \<Rightarrow> s | None \<Rightarrow> ''null''))
   \<and> (selectedDistrict st \<in> {None, Some []} \<longrightarrow>
       (\<forall>s. selectedState st = Some s \<and> s \<noteq> [] \<longrightarrow> locationLabel st = s))
   \<and> (selectedDistrict st \<in> {None, Some []} \<and> selectedState st \<in> {None, Some []} \<longrightarrow>
       locationLabel st = ''All India'')"
  by (auto simp: locationLabel_def)

theorem locationLabel_cases_witness:
  "locationLabel (setSelectedDistrict (Some ''Puri'') (setSelectedState (Some ''Odisha'') mounted)) = ''Puri, Odisha''
   \<and> locationLabel (setSelectedState (Some ''Odisha'') mounted) = ''Odisha''
   \<and> locationLabel mounted = ''All India''"
  using locationLabel_cases [of "setSelectedDistrict (Some ''Puri'') (setSelectedState (Some ''Odisha'') mounted)"]
    locationLabel_cases [of "setSelectedState (Some ''Odisha'') mounted"]
    locationLabel_cases [of mounted]
  by (simp add: setSelectedState_def setSelectedState_render_def setSelectedDistrict_def mounted_def
      selectedState_effect_def send_def initial_def)

text \<open>
  C7 as stated fails on empty strings, which are non-null: with the district \<^verbatim>\<open>""\<close>
  and the state Odisha the label is \<^verbatim>\<open>Odisha\<close>, not \<^verbatim>\<open>, Odisha\<close>; with the state
  \<^verbatim>\<open>""\<close> and no district the label is \<^verbatim>\<open>All India\<close>, not the state.
\<close>

theorem locationLabel_empty_strings:
  "selectedDistrict (setSelectedDistrict (Some '''') (setSelectedState (Some ''Odisha'') mounted)) = Some ''''
   \<and> locationLabel (setSelectedDistrict (Some '''') (setSelectedState (Some ''Odisha'') mounted)) = ''Odisha''
   \<and> locationLabel (setSelectedDistrict (Some '''') (setSelectedState (Some ''Odisha'') mounted))
       \<noteq> '''' @ '', '' @ ''Odisha''
   \<and> selectedState (setSelectedState (Some '''') mounted) = Some ''''
   \<and> selectedDistrict (setSelectedState (Some '''') mounted) = None
   \<and> locationLabel (setSelectedState (Some '''') mounted) = ''All India''"
  by (simp add: locationLabel_def setSelectedState_def setSelectedState_render_def
      setSelectedDistrict_def mounted_def selectedState_effect_def send_def initial_def)

text \<open>The state list is requested once, on mount: while that request is in flight
  it is the only one of its kind, and \<open>states\<close> still holds its initial value.\<close>

lemma states_pending_invariant:
  "reach may_select st \<Longrightarrow>
   count_list (inflight st) states_request \<le> 1
   \<and> (states_request \<in> set (inflight st) \<longrightarrow> states st = [])"
proof (induction rule: reach.induct)
  case reach_mounted
  show ?case by (simp add: mounted_eq initial_def)
next
  case (reach_render st v)
  then show ?case by (simp add: setSelectedState_render_def)
next
  case (reach_effect st)
  then show ?case
    by (auto simp: selectedState_effect_def send_def
        districts_request_neq_states_request districts_request_neq_states_request [THEN not_sym]
        split: option.splits)
next
  case (reach_district st d)
  then show ?case by (simp add: setSelectedDistrict_def)
next
  case (reach_response st q response st')
  show ?case
  proof (cases "q = states_request")
    case True
    with reach_response.hyps(3)
    have infl: "inflight st' = remove1 states_request (inflight st)"
      by (auto simp: deliver_states fetchStates_settled_def fetchStates_try_def Let_def
          split: sum.splits)
    from reach_response.IH have "count_list (inflight st) states_request \<le> 1" by simp
    moreover from reach_response.hyps(2) True
    have "count_list (remove1 states_request (inflight st)) states_request
        = count_list (inflight st) states_request - 1"
      by simp
    ultimately have "count_list (inflight st') states_request = 0"
      unfolding infl by simp
    then have "states_request \<notin> set (inflight st')"
      by (simp add: count_list_0_iff)
    with \<open>count_list (inflight st') states_request = 0\<close> show ?thesis by simp
  next
    case False
    with reach_response.hyps(3)
    have infl: "inflight st' = remove1 q (inflight st)" and st: "states st' = states st"
      by (auto simp: deliver_districts fetchDistricts_settled_def fetchDistricts_try_def Let_def
          split: sum.splits json.splits)
    from False have "count_list (remove1 q (inflight st)) states_request
        = count_list (inflight st) states_request"
      by simp
    moreover from False have "states_request \<in> set (remove1 q (inflight st))
        \<longleftrightarrow> states_request \<in> set (inflight st)"
      by simp
    ultimately show ?thesis using reach_response.IH infl st by simp
  qed
qed

text \<open>
  C8. In every state the provider can reach, when the state-list request in flight is
  rejected, \<^verbatim>\<open>fetchStates\<close> still fulfils (nothing escapes), \<^verbatim>\<open>states\<close> is empty,
  \<^verbatim>\<open>isLoadingStates\<close> is false and no request has been added; when a district-list
  request in flight is rejected, \<^verbatim>\<open>fetchDistricts\<close> fulfils, \<^verbatim>\<open>districts\<close> is empty,
  \<^verbatim>\<open>isLoadingDistricts\<close> is false and no request has been added.
\<close>

theorem failed_fetch_leaves_list_empty:
  "reach may_select st \<Longrightarrow>
   (states_request \<in> set (inflight st) \<longrightarrow>
      (\<exists>st'. deliver states_request (Inl e) st = Inr st'
         \<and> states st' = [] \<and> \<not> isLoadingStates st'
         \<and> issued st' = issued st
         \<and> inflight st' = remove1 states_request (inflight st)))
   \<and> (\<forall>q. q \<in> set (inflight st) \<and> q \<noteq> states_request \<longrightarrow>
      (\<exists>st'. deliver q (Inl e) st = Inr st'
         \<and> districts st' = [] \<and> \<not> isLoadingDistricts st'
         \<and> issued st' = issued st
         \<and> inflight st' = remove1 q (inflight st)))"
proof -
  assume r: "reach may_select st"
  have states_part: "states_request \<in> set (inflight st) \<longrightarrow>
      (\<exists>st'. deliver states_request (Inl e) st = Inr st'
         \<and> states st' = [] \<and> \<not> isLoadingStates st'
         \<and> issued st' = issued st
         \<and> inflight st' = remove1 states_request (inflight st))"
  proof
    assume "states_request \<in> set (inflight st)"
    with states_pending_invariant [OF r] have "states st = []" by simp
    then show "\<exists>st'. deliver states_request (Inl e) st = Inr st'
         \<and> states st' = [] \<and> \<not> isLoadingStates st'
         \<and> issued st' = issued st
         \<and> inflight st' = remove1 states_request (inflight st)"
      by (simp add: deliver_states fetchStates_settled_failed)
  qed
  have districts_part: "\<forall>q. q \<in> set (inflight st) \<and> q \<noteq> states_request \<longrightarrow>
      (\<exists>st'. deliver q (Inl e) st = Inr st'
         \<and> districts st' = [] \<and> \<not> isLoadingDistricts st'
         \<and> issued st' = issued st
         \<and> inflight st' = remove1 q (inflight st))"
    by (simp add: deliver_districts fetchDistricts_settled_failed)
  from states_part districts_part show ?thesis by blast
qed

theorem failed_fetch_leaves_list_empty_witness:
  "deliver states_request (Inl RequestFailed) (setSelectedState (Some ''Odisha'') mounted)
     = Inr (setSelectedState (Some ''Odisha'') mounted
             \<lparr>isLoadingStates := False, inflight := [districts_request ''Odisha'']\<rparr>)
   \<and> states (setSelectedState (Some ''Odisha'') mounted) = []
   \<and> deliver (districts_request ''Odisha'') (Inl RequestFailed) (setSelectedState (Some ''Odisha'') mounted)
     = Inr (setSelectedState (Some ''Odisha'') mounted
             \<lparr>districts := [], isLoadingDistricts := False, inflight := [states_request]\<rparr>)"
proof -
  let ?st = "setSelectedState (Some ''Odisha'') mounted"
  have r: "reach any_caller ?st"
    by (rule reach_state [OF reach_mounted]) (simp add: mounted_eq initial_def)
  have st: "?st = initial\<lparr>selectedState := Some ''Odisha'', isLoadingDistricts := True,
      issued := [states_request, districts_request ''Odisha''],
      inflight := [states_request, districts_request ''Odisha'']\<rparr>"
    by (simp add: setSelectedState_def setSelectedState_render_def mounted_def
        selectedState_effect_def send_def initial_def)
  have infl: "inflight ?st = [states_request, districts_request ''Odisha'']"
    by (simp add: st)
  from failed_fetch_leaves_list_empty [OF r, of RequestFailed]
  have "\<exists>st'. deliver states_request (Inl RequestFailed) ?st = Inr st' \<and> states st' = []"
    and "\<exists>st'. deliver (districts_request ''Odisha'') (Inl RequestFailed) ?st = Inr st' \<and> districts st' = []"
    unfolding infl by (auto simp: districts_request_neq_states_request)
  moreover have "states ?st = []" by (simp add: st initial_def)
  ultimately show ?thesis
    by (simp add: deliver_states deliver_districts districts_request_neq_states_request
        districts_request_neq_states_request [THEN not_sym]
        fetchStates_settled_failed fetchDistricts_settled_failed infl)
qed

end
